theory Spec2Isabelle
  imports Complex_Main "HOL-Library.Monad_Syntax"
begin

section \<open>The host: numbers, nodes, rectangles\<close>

text \<open>
  The plugin (\<^verbatim>\<open>src/chartist-plugin-drag.js\<close>) runs inside a browser. What it reads and
  writes there is made explicit:
  \<^item> a JavaScript number is an exact rational. Every function below only adds, subtracts,
    multiplies and divides; rounding of doubles, \<^verbatim>\<open>Infinity\<close> and \<^verbatim>\<open>NaN\<close> are outside the
    model, so a statement about a quotient carries the hypothesis that the divisor is
    not zero;
  \<^item> a DOM element is a reference \<open>elem\<close> into the \<open>document\<close>, a partial map to nodes.
    A node keeps the attributes the plugin touches: \<^verbatim>\<open>class\<close> (already split on spaces),
    the indices attribute (\<^verbatim>\<open>options.attribute\<close>, the pair written as
    \<^verbatim>\<open>seriesIndex + ',' + index\<close> and read back with \<^verbatim>\<open>split(',')\<close>), \<^verbatim>\<open>parentNode\<close>,
    \<^verbatim>\<open>transform\<close> (only ever \<^verbatim>\<open>translate(dx dy)\<close>), \<^verbatim>\<open>style.pointerEvents\<close> and
    \<^verbatim>\<open>ct:value\<close>. The order of siblings is not represented;
  \<^item> layout is the browser's: a node has a client box \<open>n_box\<close>, the rectangle it occupies
    without its own \<^verbatim>\<open>transform\<close>, and \<^verbatim>\<open>getBoundingClientRect\<close> is that box moved by the
    translation (user units are client pixels, as in a chart drawn without a viewBox);
  \<^item> a thrown \<^verbatim>\<open>TypeError\<close> (a property read on \<^verbatim>\<open>null\<close> or \<^verbatim>\<open>undefined\<close>, a call of
    something that is no function) is the result \<open>None\<close>: the handler did not return.
    A reference to no node does not occur in the source; the model fails there too.
\<close>

type_synonym num = rat
type_synonym elem = nat

record rect =
  r_left :: num
  r_top :: num
  r_right :: num
  r_bottom :: num

record node =
  n_class :: "string list option"
  n_indices :: "(nat \<times> nat) option"
  n_parent :: "elem option"
  n_box :: rect
  n_transform :: "(num \<times> num) option"
  n_pointerEvents_none :: bool
  n_ct_value :: "(num \<times> num) option"

type_synonym document = "elem \<Rightarrow> node option"

definition translate :: "num \<Rightarrow> num \<Rightarrow> rect \<Rightarrow> rect" where
  "translate dx dy r =
     \<lparr>r_left = r_left r + dx, r_top = r_top r + dy,
      r_right = r_right r + dx, r_bottom = r_bottom r + dy\<rparr>"

definition getBoundingClientRect :: "node \<Rightarrow> rect" where
  "getBoundingClientRect n =
     (case n_transform n of
        None \<Rightarrow> n_box n
      | Some (dx, dy) \<Rightarrow> translate dx dy (n_box n))"

section \<open>Chart data, axes, options, events\<close>

text \<open>
  A data point has numeric \<^verbatim>\<open>x\<close> and \<^verbatim>\<open>y\<close>; every other field it carries is the
  extension part of the record (\<open>datapoint.more\<close>). A JavaScript array is a map from
  indices: a read of an absent slot gives \<^verbatim>\<open>undefined\<close> (\<open>None\<close>), a write stores.
  An axis object has an identity (\<^verbatim>\<open>!==\<close> compares references), a \<^verbatim>\<open>range\<close> that may be
  absent, and a pixel length.
\<close>

record datapoint =
  dp_x :: num
  dp_y :: num

record axis_range =
  rg_min :: num
  rg_max :: num

record axis =
  a_ident :: nat
  a_range :: "axis_range option"
  a_axisLength :: num

record converter =
  c_axisX :: axis
  c_axisY :: axis
  minX :: num
  minY :: num
  ratioX :: num
  ratioY :: num

record 'a delta =
  oldData :: "'a datapoint_scheme"
  newData :: "'a datapoint_scheme"
  changed :: bool
  dl_converter :: converter
  dl_dx :: num
  dl_dy :: num

datatype chart_kind = Line | Bar | Pie

type_synonym 'a series = "nat \<Rightarrow> 'a datapoint_scheme option"

record 'a chart =
  ch_kind :: chart_kind
  ch_container :: elem
  ch_series :: "nat \<Rightarrow> 'a series option"
  ch_updates :: nat
  ch_draw_handler :: bool

datatype jsval = JUndefined | JNull | JBool bool | JNum num | JStr string

record 'a options =
  o_appendToBody :: bool
  o_attribute :: string
  o_axis :: string
  o_axisX :: bool
  o_axisY :: bool
  o_pointClass :: string
  o_updateWhileDragging :: bool
  o_updateCallback :: "('a delta \<Rightarrow> elem \<Rightarrow> 'a chart \<Rightarrow> jsval) option"
  o_commonClass :: string
  o_highlightClass :: string
  o_sourceClass :: string
  o_destinationClass :: string

record pointer =
  p_target :: elem
  clientX :: num
  clientY :: num

text \<open>
  A mouse event is its own pointer and has a button; a touch event has a target, no
  button, and a list of changed touches that is never empty (the earlier ones, then the
  last). Both carry the name they are dispatched under.
\<close>

datatype event =
    MouseEvent string pointer nat
  | TouchEvent string elem "pointer list" pointer

record draw_data =
  d_type :: string
  d_element :: elem
  d_seriesIndex :: nat
  d_index :: nat
  d_axisX :: axis
  d_axisY :: axis

datatype etarget = Container | Document

datatype handler = Highlight | Unhighlight | PreventSelect | StartDrag | EndDrag | TrackDrag

record listener =
  l_target :: etarget
  l_name :: string
  l_touch :: bool
  l_selector :: "string option"
  l_handler :: handler

text \<open>
  The state one call of \<^verbatim>\<open>drag(chart)\<close> closes over, with the document and the chart it
  works on: \<open>fresh\<close> is the next unused node reference (\<^verbatim>\<open>cloneNode\<close>), \<open>grids\<close> is what
  \<^verbatim>\<open>container.getElementsByClassName('ct-grids')\<close> returns, \<open>callbacks\<close> records each call of
  \<^verbatim>\<open>options.updateCallback\<close>, and \<open>ch_updates\<close> counts the calls of \<^verbatim>\<open>chart.update()\<close>.
\<close>

record 'a state =
  doc :: document
  fresh :: elem
  grids :: "elem list"
  chart :: "'a chart"
  listeners :: "listener list"
  marker_element :: "elem option"
  marker_reference :: "elem option"
  converter :: "converter option"
  highlighted :: "elem option"
  dragged :: "elem option"
  offset :: "(num \<times> num) option"
  callbacks :: "'a delta list"

section \<open>Options and small helpers (lines 13-64)\<close>

definition defaultOptions :: "'a options" where
  "defaultOptions =
     \<lparr>o_appendToBody = False, o_attribute = ''ct:indices'', o_axis = ''y'',
      o_axisX = False, o_axisY = False, o_pointClass = ''ct-point'',
      o_updateWhileDragging = True, o_updateCallback = None,
      o_commonClass = ''chartist-drag'', o_highlightClass = ''chartist-drag-highlight'',
      o_sourceClass = ''chartist-drag-source'',
      o_destinationClass = ''chartist-drag-destination''\<rparr>"

text \<open>
  Lines 35-36, applied to the options already merged over the defaults (line 34):
  \<^verbatim>\<open>options.axis.toLowerCase().indexOf('x') > -1\<close> holds when the string has an
  \<^verbatim>\<open>x\<close> in either case.
\<close>

definition init_options :: "'a options \<Rightarrow> 'a options" where
  "init_options options =
     options
       \<lparr>o_axisX := o_axisX options \<or> CHR ''x'' \<in> set (o_axis options) \<or> CHR ''X'' \<in> set (o_axis options),
        o_axisY := o_axisY options \<or> CHR ''y'' \<in> set (o_axis options) \<or> CHR ''Y'' \<in> set (o_axis options)\<rparr>"

text \<open>
  \<^verbatim>\<open>classes(element)\<close> reads the class list (\<^verbatim>\<open>getAttribute('class')\<close> is \<^verbatim>\<open>null\<close> when the
  attribute is absent, and \<^verbatim>\<open>null.split\<close> throws); \<^verbatim>\<open>classes(element, list)\<close> writes it. Class
  names hold no space, so that \<^verbatim>\<open>join(' ')\<close> and \<^verbatim>\<open>split(' ')\<close> undo each other.
\<close>

definition classes :: "document \<Rightarrow> elem \<Rightarrow> string list option" where
  "classes d element = do { n \<leftarrow> d element; n_class n }"

definition set_classes :: "document \<Rightarrow> elem \<Rightarrow> string list \<Rightarrow> document option" where
  "set_classes d element list =
     do { n \<leftarrow> d element; Some (d(element \<mapsto> n\<lparr>n_class := Some list\<rparr>)) }"

text \<open>One turn of the loop of \<^verbatim>\<open>toggleClass\<close>: \<^verbatim>\<open>splice(ind, 1)\<close> at the first occurrence.\<close>

definition toggle :: "bool \<Rightarrow> string list \<Rightarrow> string \<Rightarrow> string list" where
  "toggle enable list className =
     (if enable \<noteq> (className \<in> set list)
      then (if enable then list @ [className] else remove1 className list)
      else list)"

primrec toggle_each :: "bool \<Rightarrow> string list \<Rightarrow> string list \<Rightarrow> string list" where
  "toggle_each enable list [] = list"
| "toggle_each enable list (className # rest) = toggle_each enable (toggle enable list className) rest"

definition toggleClass :: "document \<Rightarrow> elem \<Rightarrow> bool \<Rightarrow> string list \<Rightarrow> document option" where
  "toggleClass d element enable classNames =
     do { list \<leftarrow> classes d element;
          set_classes d element (toggle_each enable list classNames) }"

definition inRect :: "rect \<Rightarrow> num \<Rightarrow> num \<Rightarrow> bool" where
  "inRect r x y \<longleftrightarrow> x \<ge> r_left r \<and> x \<le> r_right r \<and> y \<ge> r_top r \<and> y \<le> r_bottom r"

section \<open>Events and the listener wrapper \<^verbatim>\<open>on\<close> (lines 66-76)\<close>

fun ev_name :: "event \<Rightarrow> string" where
  "ev_name (MouseEvent name p b) = name"
| "ev_name (TouchEvent name t earlier l) = name"

fun ev_target :: "event \<Rightarrow> elem" where
  "ev_target (MouseEvent name p b) = p_target p"
| "ev_target (TouchEvent name t earlier l) = t"

text \<open>\<^verbatim>\<open>!event.button\<close>: the button is 0, or the event has no such property.\<close>

fun no_button :: "event \<Rightarrow> bool" where
  "no_button (MouseEvent name p b) = (b = 0)"
| "no_button (TouchEvent name t earlier l) = True"

text \<open>
  \<^verbatim>\<open>touch ? event.changedTouches[event.changedTouches.length - 1] : event\<close>. A listener
  registered under a touch name receives touch events and no others; a mouse event has
  no \<^verbatim>\<open>changedTouches\<close>, so the read throws, and a touch event taken for a mouse event has
  no client position.
\<close>

fun info_of :: "bool \<Rightarrow> event \<Rightarrow> pointer option" where
  "info_of True (TouchEvent name t earlier l) = Some l"
| "info_of False (MouseEvent name p b) = Some p"
| "info_of True (MouseEvent name p b) = None"
| "info_of False (TouchEvent name t earlier l) = None"

text \<open>\<^verbatim>\<open>'a b'.split(' ')\<close> and \<^verbatim>\<open>name.indexOf('touch') > -1\<close>.\<close>

fun split_on :: "char \<Rightarrow> string \<Rightarrow> string list" where
  "split_on c [] = [[]]"
| "split_on c (x # xs) =
     (if x = c then [] # split_on c xs
      else (case split_on c xs of [] \<Rightarrow> [[x]] | w # ws \<Rightarrow> (x # w) # ws))"

fun contains :: "string \<Rightarrow> string \<Rightarrow> bool" where
  "contains [] sub = (sub = [])"
| "contains (c # cs) sub = (take (length sub) (c # cs) = sub \<or> contains cs sub)"

text \<open>\<^verbatim>\<open>!selector\<close>: \<^verbatim>\<open>null\<close> and the empty string both switch the filter off.\<close>

definition no_selector :: "string option \<Rightarrow> bool" where
  "no_selector selector \<longleftrightarrow> selector = None \<or> selector = Some []"

text \<open>The function \<^verbatim>\<open>on\<close> hands to \<^verbatim>\<open>addEventListener\<close> (lines 70-74).\<close>

definition fire ::
  "string option \<Rightarrow> bool \<Rightarrow> (event \<Rightarrow> pointer \<Rightarrow> bool \<Rightarrow> 'a state \<Rightarrow> 'a state option) \<Rightarrow>
   event \<Rightarrow> 'a state \<Rightarrow> 'a state option" where
  "fire selector touch callback event st =
     do { info \<leftarrow> info_of touch event;
          if no_selector selector then callback event info touch st
          else do { list \<leftarrow> classes (doc st) (p_target info);
                    if the selector \<in> set list then callback event info touch st else Some st } }"

definition on :: "string \<Rightarrow> etarget \<Rightarrow> string option \<Rightarrow> handler \<Rightarrow> listener list \<Rightarrow> listener list" where
  "on eventNames element selector callback ls =
     ls @ map (\<lambda>name. \<lparr>l_target = element, l_name = name, l_touch = contains name ''touch'',
                        l_selector = selector, l_handler = callback\<rparr>)
              (split_on CHR '' '' eventNames)"

section \<open>Point data, converter, marker, drop rectangle (lines 78-139)\<close>

text \<open>
  \<^verbatim>\<open>pointData(chart, point)\<close> and \<^verbatim>\<open>pointData(chart, point, data)\<close>. A point without the
  indices attribute throws (\<^verbatim>\<open>null.split\<close>), and so does an absent series
  (\<^verbatim>\<open>undefined.data\<close>); an absent slot reads as \<^verbatim>\<open>undefined\<close>, the inner \<open>None\<close>.
\<close>

definition pointData :: "'a state \<Rightarrow> elem \<Rightarrow> 'a datapoint_scheme option option" where
  "pointData st point =
     do { n \<leftarrow> doc st point;
          indices \<leftarrow> n_indices n;
          series \<leftarrow> ch_series (chart st) (fst indices);
          Some (series (snd indices)) }"

definition pointData_set :: "'a state \<Rightarrow> elem \<Rightarrow> 'a datapoint_scheme \<Rightarrow> 'a state option" where
  "pointData_set st point data =
     do { n \<leftarrow> doc st point;
          indices \<leftarrow> n_indices n;
          series \<leftarrow> ch_series (chart st) (fst indices);
          Some (st\<lparr>chart := (chart st)
                  \<lparr>ch_series := (ch_series (chart st))(fst indices \<mapsto> series(snd indices \<mapsto> data))\<rparr>\<rparr>) }"

definition createConverter :: "axis \<Rightarrow> axis \<Rightarrow> converter option" where
  "createConverter axisX axisY =
     do { rx \<leftarrow> a_range axisX;
          ry \<leftarrow> a_range axisY;
          Some \<lparr>c_axisX = axisX, c_axisY = axisY,
                minX = rg_min rx, minY = rg_min ry,
                ratioX = (rg_max rx - rg_min rx) / a_axisLength axisX,
                ratioY = (rg_max ry - rg_min ry) / a_axisLength axisY\<rparr> }"

definition convertX :: "converter \<Rightarrow> num \<Rightarrow> num" where
  "convertX c x = minX c + x * ratioX c"

definition convertY :: "converter \<Rightarrow> num \<Rightarrow> num" where
  "convertY c y = minY c + y * ratioY c"

text \<open>\<^verbatim>\<open>createMarker()\<close>: both fields \<^verbatim>\<open>null\<close>.\<close>

definition createMarker :: "'a state \<Rightarrow> 'a state" where
  "createMarker st = st\<lparr>marker_element := None, marker_reference := None\<rparr>"

definition marker_setPosition :: "num \<Rightarrow> num \<Rightarrow> 'a state \<Rightarrow> 'a state option" where
  "marker_setPosition x y st =
     do { reference \<leftarrow> marker_reference st;
          rn \<leftarrow> doc st reference;
          let referenceRect = getBoundingClientRect rn;
          let dx = x - r_left referenceRect;
          let dy = y - r_top referenceRect;
          element \<leftarrow> marker_element st;
          en \<leftarrow> doc st element;
          Some (st\<lparr>doc := (doc st)(element \<mapsto> en\<lparr>n_transform := Some (dx, dy)\<rparr>)\<rparr>) }"

text \<open>
  \<^verbatim>\<open>marker.create(point)\<close>. The clone is a new node with the attributes of the point and no
  parent; inserted under the point's parent it has the point's client box.
\<close>

definition marker_create :: "'a options \<Rightarrow> elem \<Rightarrow> 'a state \<Rightarrow> 'a state option" where
  "marker_create options point st =
     do { pn \<leftarrow> doc st point;
          let element = fresh st;
          let st1 = st\<lparr>marker_reference := Some point, marker_element := Some element,
                        fresh := Suc element\<rparr>;
          parent \<leftarrow> n_parent pn;
          let st2 = st1\<lparr>doc := (doc st1)(element \<mapsto>
                          pn\<lparr>n_parent := Some parent, n_pointerEvents_none := True\<rparr>)\<rparr>;
          let rect = getBoundingClientRect pn;
          st3 \<leftarrow> marker_setPosition (r_left rect) (r_top rect) st2;
          d4 \<leftarrow> toggleClass (doc st3) element False [o_highlightClass options];
          d5 \<leftarrow> toggleClass d4 element True [o_commonClass options, o_destinationClass options];
          Some (st3\<lparr>doc := d5\<rparr>) }"

definition marker_destroy :: "'a state \<Rightarrow> 'a state option" where
  "marker_destroy st =
     do { element \<leftarrow> marker_element st;
          en \<leftarrow> doc st element;
          (case n_parent en of
             Some parent \<Rightarrow> Some (st\<lparr>doc := (doc st)(element \<mapsto> en\<lparr>n_parent := None\<rparr>)\<rparr>)
           | None \<Rightarrow> Some st) }"

text \<open>
  \<^verbatim>\<open>getDragRect(container)\<close>. \<^verbatim>\<open>getElementsByClassName\<close> always returns a collection, and
  a collection is truthy also when it is empty: with no grid element \<^verbatim>\<open>(grid || container)\<close>
  is the empty collection, which has no \<^verbatim>\<open>getBoundingClientRect\<close>, and the call throws.
\<close>

definition getDragRect :: "'a state \<Rightarrow> elem \<Rightarrow> rect option" where
  "getDragRect st container =
     (case grids st of
        [] \<Rightarrow> None
      | grid # others \<Rightarrow> map_option getBoundingClientRect (doc st grid))"

section \<open>The plugin instance: \<^verbatim>\<open>drag(chart)\<close> and its handlers (lines 141-271)\<close>

text \<open>
  Modelled from the spec: \<^verbatim>\<open>Chartist.extend\<close> is the chart library's and not in the source;
  the spec has the new value as the old data point "shallow-merged with the computed x,y".
  \<^verbatim>\<open>Chartist.extend({}, data, {x: .., y: ..})\<close> is then the old point with \<^verbatim>\<open>x\<close> and \<^verbatim>\<open>y\<close>
  replaced.
\<close>

definition Chartist_extend :: "'a datapoint_scheme \<Rightarrow> num \<Rightarrow> num \<Rightarrow> 'a datapoint_scheme" where
  "Chartist_extend data x y = data\<lparr>dp_x := x, dp_y := y\<rparr>"

text \<open>
  \<^verbatim>\<open>calcDelta()\<close> (lines 156-174). Before the first point is drawn \<^verbatim>\<open>converter\<close> is \<^verbatim>\<open>{}\<close>
  and \<^verbatim>\<open>converter.convertX\<close> is no function; an \<^verbatim>\<open>undefined\<close> data point has no \<^verbatim>\<open>x\<close>.
\<close>

definition calcDelta :: "'a state \<Rightarrow> 'a delta option" where
  "calcDelta st =
     do { d \<leftarrow> dragged st;
          dn \<leftarrow> doc st d;
          let draggedRect = getBoundingClientRect dn;
          element \<leftarrow> marker_element st;
          en \<leftarrow> doc st element;
          let markerRect = getBoundingClientRect en;
          let dx = r_left markerRect - r_left draggedRect;
          let dy = r_top draggedRect - r_top markerRect;
          slot \<leftarrow> pointData st d;
          data \<leftarrow> slot;
          c \<leftarrow> converter st;
          Some \<lparr>oldData = data,
                newData = Chartist_extend data (dp_x data + convertX c dx) (dp_y data + convertY c dy),
                changed = (dx \<noteq> 0 \<or> dy \<noteq> 0),
                dl_converter = c, dl_dx = dx, dl_dy = dy\<rparr> }"

text \<open>The handler of the chart's \<^verbatim>\<open>draw\<close> event (lines 177-187).\<close>

definition same_axes :: "draw_data \<Rightarrow> converter option \<Rightarrow> bool" where
  "same_axes data conv =
     (case conv of
        None \<Rightarrow> False
      | Some c \<Rightarrow> a_ident (d_axisX data) = a_ident (c_axisX c) \<and>
                  a_ident (d_axisY data) = a_ident (c_axisY c))"

definition on_draw :: "'a options \<Rightarrow> draw_data \<Rightarrow> 'a state \<Rightarrow> 'a state option" where
  "on_draw options data st =
     (if d_type data = ''point'' then
        do { n \<leftarrow> doc st (d_element data);
             let st1 = st\<lparr>doc := (doc st)(d_element data \<mapsto>
                             n\<lparr>n_indices := Some (d_seriesIndex data, d_index data)\<rparr>)\<rparr>;
             if \<not> same_axes data (converter st1) then
               do { c \<leftarrow> createConverter (d_axisX data) (d_axisY data);
                    Some (st1\<lparr>converter := Some c\<rparr>) }
             else Some st1 }
      else Some st)"

text \<open>\<^verbatim>\<open>mouseover\<close> and \<^verbatim>\<open>mouseout\<close> on a point (lines 190-203).\<close>

definition highlight :: "'a options \<Rightarrow> event \<Rightarrow> pointer \<Rightarrow> bool \<Rightarrow> 'a state \<Rightarrow> 'a state option" where
  "highlight options event info touch st =
     (case dragged st of
        Some d \<Rightarrow> Some st
      | None \<Rightarrow>
          do { let st1 = st\<lparr>highlighted := Some (ev_target event)\<rparr>;
               d1 \<leftarrow> toggleClass (doc st1) (ev_target event) True
                       [o_commonClass options, o_highlightClass options];
               Some (st1\<lparr>doc := d1\<rparr>) })"

definition unhighlight :: "'a options \<Rightarrow> event \<Rightarrow> pointer \<Rightarrow> bool \<Rightarrow> 'a state \<Rightarrow> 'a state option" where
  "unhighlight options event info touch st =
     (case dragged st of
        Some d \<Rightarrow> Some st
      | None \<Rightarrow>
          do { let st1 = st\<lparr>highlighted := None\<rparr>;
               d1 \<leftarrow> toggleClass (doc st1) (ev_target event) False
                       [o_commonClass options, o_highlightClass options];
               Some (st1\<lparr>doc := d1\<rparr>) })"

text \<open>\<^verbatim>\<open>mousedown touchstart\<close> on a point (lines 212-226).\<close>

definition start_drag :: "'a options \<Rightarrow> event \<Rightarrow> pointer \<Rightarrow> bool \<Rightarrow> 'a state \<Rightarrow> 'a state option" where
  "start_drag options event info touch st =
     (if no_button event then
        do { let d = ev_target event;
             dn \<leftarrow> doc st d;
             let draggedRect = getBoundingClientRect dn;
             let st1 = st\<lparr>dragged := Some d,
                           offset := Some (r_left draggedRect - clientX info,
                                           r_top draggedRect - clientY info)\<rparr>;
             st2 \<leftarrow> marker_create options d st1;
             d3 \<leftarrow> toggleClass (doc st2) d False [o_highlightClass options];
             d4 \<leftarrow> toggleClass d3 d True [o_commonClass options, o_sourceClass options];
             Some (st2\<lparr>doc := d4\<rparr>) }
      else Some st)"

text \<open>
  \<^verbatim>\<open>mouseup touchend\<close> on the document (lines 229-250). \<^verbatim>\<open>chart.update()\<close> is the
  engine's: the model counts the request.
\<close>

definition update_chart :: "'a state \<Rightarrow> 'a state" where
  "update_chart st = st\<lparr>chart := (chart st)\<lparr>ch_updates := Suc (ch_updates (chart st))\<rparr>\<rparr>"

text \<open>Lines 236-237: \<^verbatim>\<open>options.updateCallback && options.updateCallback(..) === false\<close>.\<close>

definition preventDefault :: "'a options \<Rightarrow> 'a delta \<Rightarrow> elem \<Rightarrow> 'a chart \<Rightarrow> bool" where
  "preventDefault options delta d ch =
     (case o_updateCallback options of
        None \<Rightarrow> False
      | Some updateCallback \<Rightarrow> updateCallback delta d ch = JBool False)"

text \<open>Lines 235-242; the call of the callback is recorded.\<close>

definition commit :: "'a options \<Rightarrow> elem \<Rightarrow> 'a delta \<Rightarrow> 'a state \<Rightarrow> 'a state option" where
  "commit options d delta st =
     (if changed delta then
        (let prevent = preventDefault options delta d (chart st);
             st0 = (case o_updateCallback options of
                      None \<Rightarrow> st
                    | Some updateCallback \<Rightarrow> st\<lparr>callbacks := callbacks st @ [delta]\<rparr>)
         in if \<not> prevent then
              do { st1 \<leftarrow> pointData_set st0 d (newData delta); Some (update_chart st1) }
            else Some st0)
      else Some st)"

text \<open>Lines 243-244.\<close>

definition restore_highlight :: "'a options \<Rightarrow> 'a state \<Rightarrow> 'a state option" where
  "restore_highlight options st =
     (case highlighted st of
        Some h \<Rightarrow>
          do { d2 \<leftarrow> toggleClass (doc st) h True [o_commonClass options, o_highlightClass options];
               Some (st\<lparr>doc := d2\<rparr>) }
      | None \<Rightarrow> Some st)"

text \<open>Lines 246-249.\<close>

definition cleanup :: "'a options \<Rightarrow> elem \<Rightarrow> 'a state \<Rightarrow> 'a state option" where
  "cleanup options d st =
     do { st1 \<leftarrow> marker_destroy st;
          d2 \<leftarrow> toggleClass (doc st1) d False [o_commonClass options, o_sourceClass options];
          Some (st1\<lparr>doc := d2, dragged := None\<rparr>) }"

definition end_drag :: "'a options \<Rightarrow> event \<Rightarrow> pointer \<Rightarrow> bool \<Rightarrow> 'a state \<Rightarrow> 'a state option" where
  "end_drag options event info touch st =
     (case dragged st of
        None \<Rightarrow> Some st
      | Some d \<Rightarrow>
          do { r \<leftarrow> getDragRect st (ch_container (chart st));
               st3 \<leftarrow> (if inRect r (clientX info) (clientY info) then
                         do { delta \<leftarrow> calcDelta st;
                              st1 \<leftarrow> commit options d delta st;
                              restore_highlight options st1 }
                       else Some st);
               cleanup options d st3 })"

text \<open>
  \<^verbatim>\<open>mousemove touchmove\<close> on the container (lines 253-270). The two synthetic events are
  dispatched on the marker element and bubble to the container, where this plugin
  listens for them with the point selector (lines 190 and 198); \<^verbatim>\<open>dispatchEvent\<close> does not
  pass a listener's exception on to its caller.
\<close>

definition synthetic :: "string \<Rightarrow> event \<Rightarrow> elem \<Rightarrow> event" where
  "synthetic name event element =
     (case event of
        MouseEvent n p b \<Rightarrow> MouseEvent name (p\<lparr>p_target := element\<rparr>) b
      | TouchEvent n t earlier l \<Rightarrow> MouseEvent name (l\<lparr>p_target := element\<rparr>) 0)"

definition dispatchEvent ::
  "(event \<Rightarrow> pointer \<Rightarrow> bool \<Rightarrow> 'a state \<Rightarrow> 'a state option) \<Rightarrow> 'a options \<Rightarrow> event \<Rightarrow> 'a state \<Rightarrow> 'a state" where
  "dispatchEvent callback options event st =
     (case fire (Some (o_pointClass options)) False callback event st of
        None \<Rightarrow> st
      | Some st' \<Rightarrow> st')"

definition track_drag :: "'a options \<Rightarrow> event \<Rightarrow> pointer \<Rightarrow> bool \<Rightarrow> 'a state \<Rightarrow> 'a state option" where
  "track_drag options event info touch st =
     (case dragged st of
        None \<Rightarrow> Some st
      | Some d \<Rightarrow>
          do { x \<leftarrow> (if o_axisX options
                     then do { off \<leftarrow> offset st; Some (clientX info + fst off) }
                     else do { dn \<leftarrow> doc st d; Some (r_left (getBoundingClientRect dn)) });
               y \<leftarrow> (if o_axisY options
                     then do { off \<leftarrow> offset st; Some (clientY info + snd off) }
                     else do { dn \<leftarrow> doc st d; Some (r_top (getBoundingClientRect dn)) });
               st1 \<leftarrow> marker_setPosition x y st;
               if o_updateWhileDragging options \<and> \<not> touch then
                 do { delta \<leftarrow> calcDelta st1;
                      element \<leftarrow> marker_element st1;
                      en \<leftarrow> doc st1 element;
                      let st2 = st1\<lparr>doc := (doc st1)(element \<mapsto>
                                      en\<lparr>n_ct_value := Some (dp_x (newData delta), dp_y (newData delta))\<rparr>)\<rparr>;
                      let st3 = dispatchEvent (unhighlight options) options
                                  (synthetic ''mouseout'' event element) st2;
                      Some (dispatchEvent (highlight options) options
                              (synthetic ''mouseover'' event element) st3) }
               else Some st1 })"

text \<open>
  \<^verbatim>\<open>drag(chart)\<close> (lines 141-271): nothing for a chart that is no line chart; otherwise the
  instance variables are initialised and the listeners registered, the \<^verbatim>\<open>draw\<close> handler
  first.
\<close>

definition drag :: "'a options \<Rightarrow> 'a state \<Rightarrow> 'a state" where
  "drag options st =
     (if ch_kind (chart st) \<noteq> Line then st
      else
        (let pointSelector = o_pointClass options;
             st1 = (createMarker st)\<lparr>converter := None, highlighted := None, dragged := None,
                                      offset := None\<rparr>;
             st2 = st1\<lparr>chart := (chart st1)\<lparr>ch_draw_handler := True\<rparr>\<rparr>
         in st2\<lparr>listeners :=
                  (on ''mousemove touchmove'' Container None TrackDrag
                    (on ''mouseup touchend'' Document None EndDrag
                      (on ''mousedown touchstart'' Container (Some pointSelector) StartDrag
                        (on ''mousedown'' Container None PreventSelect
                          (on ''mouseout'' Container (Some pointSelector) Unhighlight
                            (on ''mouseover'' Container (Some pointSelector) Highlight
                              (listeners st2)))))))\<rparr>))"

section \<open>Dispatch of events to the registered listeners\<close>

text \<open>
  The browser calls the listeners registered under the event's name, in the order of
  registration: those on the document always, those on the container when the event's
  target lies inside it (\<open>inside\<close>). The handler of line 206 only calls
  \<^verbatim>\<open>preventDefault\<close>. The chart calls the \<^verbatim>\<open>draw\<close> handler once it is registered. A run stops
  at the first exception.
\<close>

definition run_handler ::
  "'a options \<Rightarrow> handler \<Rightarrow> event \<Rightarrow> pointer \<Rightarrow> bool \<Rightarrow> 'a state \<Rightarrow> 'a state option" where
  "run_handler options h =
     (case h of
        Highlight \<Rightarrow> highlight options
      | Unhighlight \<Rightarrow> unhighlight options
      | PreventSelect \<Rightarrow> (\<lambda>event info touch st. Some st)
      | StartDrag \<Rightarrow> start_drag options
      | EndDrag \<Rightarrow> end_drag options
      | TrackDrag \<Rightarrow> track_drag options)"

primrec call_listeners :: "'a options \<Rightarrow> listener list \<Rightarrow> event \<Rightarrow> 'a state \<Rightarrow> 'a state option" where
  "call_listeners options [] event st = Some st"
| "call_listeners options (l # ls) event st =
     do { st1 \<leftarrow> fire (l_selector l) (l_touch l) (run_handler options (l_handler l)) event st;
          call_listeners options ls event st1 }"

definition dispatch :: "'a options \<Rightarrow> bool \<Rightarrow> event \<Rightarrow> 'a state \<Rightarrow> 'a state option" where
  "dispatch options inside event st =
     call_listeners options
       (filter (\<lambda>l. l_name l = ev_name event \<and> (l_target l = Document \<or> inside)) (listeners st))
       event st"

definition emit_draw :: "'a options \<Rightarrow> draw_data \<Rightarrow> 'a state \<Rightarrow> 'a state option" where
  "emit_draw options data st =
     (if ch_draw_handler (chart st) then on_draw options data st else Some st)"

datatype input = Pointer bool event | Draw draw_data

fun step :: "'a options \<Rightarrow> input \<Rightarrow> 'a state \<Rightarrow> 'a state option" where
  "step options (Pointer inside event) st = dispatch options inside event st"
| "step options (Draw data) st = emit_draw options data st"

primrec run :: "'a options \<Rightarrow> input list \<Rightarrow> 'a state \<Rightarrow> 'a state option" where
  "run options [] st = Some st"
| "run options (i # is) st = do { st1 \<leftarrow> step options i st; run options is st1 }"

section \<open>Sessions, observations and example states\<close>

text \<open>
  The values the converter of a pair of axes gives.
\<close>

definition converted_x :: "axis \<Rightarrow> axis \<Rightarrow> num \<Rightarrow> num option" where
  "converted_x axisX axisY x = map_option (\<lambda>c. convertX c x) (createConverter axisX axisY)"

definition converted_y :: "axis \<Rightarrow> axis \<Rightarrow> num \<Rightarrow> num option" where
  "converted_y axisX axisY y = map_option (\<lambda>c. convertY c y) (createConverter axisX axisY)"

text \<open>
  A drag session is under way on the point \<open>d\<close> with the marker element \<open>m\<close>: the state
  \<^verbatim>\<open>mousedown\<close> leaves behind (lemma \<open>start_drag_session\<close>). An element is detached when it
  has no parent.
\<close>

definition session :: "'a state \<Rightarrow> elem \<Rightarrow> elem \<Rightarrow> bool" where
  "session st d m \<longleftrightarrow>
     dragged st = Some d \<and> marker_element st = Some m \<and> marker_reference st = Some d \<and>
     offset st \<noteq> None \<and> m \<noteq> d \<and>
     classes (doc st) d \<noteq> None \<and> classes (doc st) m \<noteq> None \<and>
     (case highlighted st of None \<Rightarrow> True | Some h \<Rightarrow> classes (doc st) h \<noteq> None)"

definition detached :: "'a state \<Rightarrow> elem \<Rightarrow> bool" where
  "detached st e \<longleftrightarrow> map_option n_parent (doc st e) = Some None"


section \<open>Example: a line chart with two points\<close>

text \<open>
  Node 1 is the container, 2 the grid group, 3 the series group, 4 and 5 the points. The
  x axis runs from 1 to 5 over 400 pixels and the y axis from 10 to 20 over 100 pixels.
\<close>

definition ex_axisX :: axis where
  "ex_axisX = \<lparr>a_ident = 1, a_range = Some \<lparr>rg_min = 1, rg_max = 5\<rparr>, a_axisLength = 400\<rparr>"

definition ex_axisY :: axis where
  "ex_axisY = \<lparr>a_ident = 2, a_range = Some \<lparr>rg_min = 10, rg_max = 20\<rparr>, a_axisLength = 100\<rparr>"

definition ex_converter :: converter where
  "ex_converter = \<lparr>c_axisX = ex_axisX, c_axisY = ex_axisY, minX = 1, minY = 10,
                    ratioX = 1 / 100, ratioY = 1 / 10\<rparr>"

definition ex_node :: "string list \<Rightarrow> (nat \<times> nat) option \<Rightarrow> elem option \<Rightarrow> num \<Rightarrow> num \<Rightarrow> num \<Rightarrow> num \<Rightarrow> node" where
  "ex_node cl ind par l t r b =
     \<lparr>n_class = Some cl, n_indices = ind, n_parent = par,
      n_box = \<lparr>r_left = l, r_top = t, r_right = r, r_bottom = b\<rparr>,
      n_transform = None, n_pointerEvents_none = False, n_ct_value = None\<rparr>"

definition ex_doc :: document where
  "ex_doc = (\<lambda>e. None)
     (1 \<mapsto> ex_node [''ct-chart''] None None 0 0 400 300,
      2 \<mapsto> ex_node [''ct-grids''] None (Some 1) 50 10 350 250,
      3 \<mapsto> ex_node [''ct-series''] None (Some 1) 50 10 350 250,
      4 \<mapsto> ex_node [''ct-point''] None (Some 3) 100 120 110 130,
      5 \<mapsto> ex_node [''ct-point''] None (Some 3) 200 150 210 160)"

definition ex_series :: "nat \<Rightarrow> string series option" where
  "ex_series = (\<lambda>i. None)
     (0 \<mapsto> (\<lambda>j. None)(0 \<mapsto> \<lparr>dp_x = 1, dp_y = 15, \<dots> = ''first''\<rparr>,
                        1 \<mapsto> \<lparr>dp_x = 2, dp_y = 12, \<dots> = ''second''\<rparr>))"

definition ex_start :: "string state" where
  "ex_start =
     \<lparr>doc = ex_doc, fresh = 6, grids = [2],
      chart = \<lparr>ch_kind = Line, ch_container = 1, ch_series = ex_series, ch_updates = 0,
               ch_draw_handler = False\<rparr>,
      listeners = [], marker_element = None, marker_reference = None, converter = None,
      highlighted = None, dragged = None, offset = None, callbacks = []\<rparr>"

definition ex_options :: "string options" where
  "ex_options = init_options (defaultOptions\<lparr>o_axis := ''xy''\<rparr>)"

definition ex_options_y :: "string options" where
  "ex_options_y = init_options defaultOptions"

definition ex_draw :: "elem \<Rightarrow> nat \<Rightarrow> draw_data" where
  "ex_draw e i = \<lparr>d_type = ''point'', d_element = e, d_seriesIndex = 0, d_index = i,
                  d_axisX = ex_axisX, d_axisY = ex_axisY\<rparr>"

definition ex_mouse :: "string \<Rightarrow> elem \<Rightarrow> num \<Rightarrow> num \<Rightarrow> event" where
  "ex_mouse name t x y = MouseEvent name \<lparr>p_target = t, clientX = x, clientY = y\<rparr> 0"

text \<open>The state after \<^verbatim>\<open>drag(chart)\<close> and the draw of the two points.\<close>

definition ex_idle :: "string options \<Rightarrow> string state" where
  "ex_idle options =
     \<lparr>doc = ex_doc
        (4 \<mapsto> ex_node [''ct-point''] (Some (0, 0)) (Some 3) 100 120 110 130,
         5 \<mapsto> ex_node [''ct-point''] (Some (0, 1)) (Some 3) 200 150 210 160),
      fresh = 6, grids = [2],
      chart = \<lparr>ch_kind = Line, ch_container = 1, ch_series = ex_series, ch_updates = 0,
               ch_draw_handler = True\<rparr>,
      listeners = listeners (drag options ex_start),
      marker_element = None, marker_reference = None, converter = Some ex_converter,
      highlighted = None, dragged = None, offset = None, callbacks = []\<rparr>"

text \<open>
  The state in the middle of a drag of the first point: the marker is node 6, moved by \<open>t\<close>,
  with the previewed value \<open>v\<close>.
\<close>

definition ex_dragging :: "string options \<Rightarrow> num \<times> num \<Rightarrow> num \<times> num \<Rightarrow> string state" where
  "ex_dragging options t v =
     (ex_idle options)
       \<lparr>doc := (doc (ex_idle options))
          (4 \<mapsto> (ex_node [''ct-point'', ''chartist-drag'', ''chartist-drag-source'']
                    (Some (0, 0)) (Some 3) 100 120 110 130),
           6 \<mapsto> (ex_node [''ct-point'', ''chartist-drag'', ''chartist-drag-destination'']
                    (Some (0, 0)) (Some 3) 100 120 110 130)
                   \<lparr>n_transform := Some t, n_pointerEvents_none := True, n_ct_value := Some v\<rparr>),
        fresh := 7, marker_element := Some 6, marker_reference := Some 4,
        dragged := Some 4, offset := Some (- 5, - 5)\<rparr>"


text \<open>Two fingers: a touch on the first point, and a touch on the second.\<close>

definition ex_touch :: "string \<Rightarrow> elem \<Rightarrow> num \<Rightarrow> num \<Rightarrow> event" where
  "ex_touch name t x y = TouchEvent name t [] \<lparr>p_target = t, clientX = x, clientY = y\<rparr>"

text \<open>A draw notification for the line of the series, under two new axis objects.\<close>

definition ex_line_draw :: draw_data where
  "ex_line_draw =
     \<lparr>d_type = ''line'', d_element = 3, d_seriesIndex = 0, d_index = 0,
      d_axisX = \<lparr>a_ident = 3, a_range = Some \<lparr>rg_min = 0, rg_max = 8\<rparr>, a_axisLength = 400\<rparr>,
      d_axisY = \<lparr>a_ident = 4, a_range = Some \<lparr>rg_min = 0, rg_max = 50\<rparr>, a_axisLength = 100\<rparr>\<rparr>"

text \<open>Update callbacks: one that vetoes, one that returns a falsy value that is not \<^verbatim>\<open>false\<close>.\<close>

definition ex_veto :: "string delta \<Rightarrow> elem \<Rightarrow> string chart \<Rightarrow> jsval" where
  "ex_veto delta d ch = JBool False"

definition ex_falsy :: "string delta \<Rightarrow> elem \<Rightarrow> string chart \<Rightarrow> jsval" where
  "ex_falsy delta d ch = JNum 0"

definition ex_delta :: "string delta" where
  "ex_delta =
     \<lparr>oldData = \<lparr>dp_x = 1, dp_y = 15, \<dots> = ''first''\<rparr>,
      newData = \<lparr>dp_x = 23 / 10, dp_y = 27, \<dots> = ''first''\<rparr>,
      changed = True, dl_converter = ex_converter, dl_dx = 30, dl_dy = 20\<rparr>"

text \<open>
  A drag of the first point by the mouse, 30 pixels to the right and 20 pixels up, released
  inside the grid; and two fingers, one put on the first point, then one on the second,
  which is lifted again.
\<close>

definition ex_cycle :: "input list" where
  "ex_cycle =
     [Pointer True (ex_mouse ''mousedown'' 4 105 125),
      Pointer True (ex_mouse ''mousemove'' 3 135 105),
      Pointer True (ex_mouse ''mouseup'' 3 135 105)]"

definition ex_two_fingers :: "input list" where
  "ex_two_fingers =
     [Pointer True (ex_touch ''touchstart'' 4 105 125),
      Pointer True (ex_touch ''touchstart'' 5 207 158),
      Pointer True (ex_touch ''touchend'' 5 207 158)]"

text \<open>The pixel delta the marker follows: the pointer's, on the enabled axes.\<close>

definition moved :: "'a options \<Rightarrow> num \<times> num \<Rightarrow> num \<times> num" where
  "moved options d = (if o_axisX options then fst d else 0, if o_axisY options then snd d else 0)"

text \<open>
  The same chart drawn with another class name for its grid group
  (\<^verbatim>\<open>classNames.gridGroup\<close>), so that no element has the class \<^verbatim>\<open>ct-grids\<close>; node 0 is the
  page around the container. And a drag of the first point that is released on the page,
  outside the container.
\<close>

definition ex_no_grid :: "string state" where
  "ex_no_grid =
     (ex_idle ex_options)
       \<lparr>doc := (doc (ex_idle ex_options))
          (0 \<mapsto> ex_node [''page''] None None 0 0 800 600,
           2 \<mapsto> ex_node [''my-grids''] None (Some 1) 50 10 350 250),
        grids := []\<rparr>"

definition ex_drop_outside :: "input list" where
  "ex_drop_outside =
     [Pointer True (ex_mouse ''mousedown'' 4 105 125),
      Pointer True (ex_mouse ''mousemove'' 3 135 105),
      Pointer False (ex_mouse ''mouseup'' 0 500 400)]"

section \<open>Properties\<close>

lemmas ex_defs = ex_axisX_def ex_axisY_def ex_converter_def ex_node_def ex_doc_def ex_series_def
  ex_start_def ex_options_def ex_draw_def ex_mouse_def ex_idle_def ex_dragging_def

lemmas model_defs = dispatch_def fire_def no_selector_def run_handler_def on_def
  start_drag_def track_drag_def end_drag_def marker_create_def marker_setPosition_def marker_destroy_def
  toggleClass_def classes_def set_classes_def toggle_def getBoundingClientRect_def translate_def
  calcDelta_def pointData_def pointData_set_def convertX_def convertY_def Chartist_extend_def
  dispatchEvent_def synthetic_def highlight_def unhighlight_def commit_def preventDefault_def
  restore_highlight_def cleanup_def update_chart_def getDragRect_def inRect_def
  drag_def createMarker_def defaultOptions_def init_options_def emit_draw_def on_draw_def
  same_axes_def createConverter_def Let_def

subsection \<open>The example states are states of the program\<close>

lemma ex_idle_reached:
  "run ex_options [Draw (ex_draw 4 0), Draw (ex_draw 5 1)] (drag ex_options ex_start)
   = Some (ex_idle ex_options)"
  by (simp add: model_defs ex_defs)

lemma ex_dragging_reached:
  "run ex_options [Pointer True (ex_mouse ''mousedown'' 4 105 125),
                   Pointer True (ex_mouse ''mousemove'' 3 135 105)] (ex_idle ex_options)
   = Some (ex_dragging ex_options (30, - 20) (23 / 10, 27))"
  by (simp add: model_defs ex_defs fun_upd_twist)

lemma ex_dragging_session: "session (ex_dragging options t v) 4 6"
  by (simp add: session_def classes_def ex_defs)

lemma ex_dragging_rect:
  "getDragRect (ex_dragging options t v) (ch_container (chart (ex_dragging options t v)))
   = Some \<lparr>r_left = 50, r_top = 10, r_right = 350, r_bottom = 250\<rparr>"
  by (simp add: getDragRect_def getBoundingClientRect_def ex_defs)

lemma ex_dragging_delta: "calcDelta (ex_dragging options (30, - 20) v) = Some ex_delta"
  by (simp add: calcDelta_def pointData_def getBoundingClientRect_def translate_def convertX_def
      convertY_def Chartist_extend_def Let_def ex_delta_def ex_defs)

subsection \<open>The pieces of the mouseup handler\<close>

lemma classes_Some_iff: "classes d e = Some cl \<longleftrightarrow> (\<exists>n. d e = Some n \<and> n_class n = Some cl)"
  by (cases "d e") (simp_all add: classes_def)

lemma toggleClass_Some:
  "d e = Some n \<Longrightarrow> n_class n = Some cl \<Longrightarrow>
   toggleClass d e en names = Some (d(e \<mapsto> n\<lparr>n_class := Some (toggle_each en cl names)\<rparr>))"
  by (simp add: toggleClass_def classes_def set_classes_def)

lemma cleanup_ok:
  assumes "marker_element st = Some m" and "classes (doc st) d \<noteq> None" and "classes (doc st) m \<noteq> None"
  shows "\<exists>st'. cleanup options d st = Some st' \<and> chart st' = chart st \<and> callbacks st' = callbacks st \<and>
           dragged st' = None \<and> detached st' m \<and> pointData st' d = pointData st d \<and>
           marker_element st' = Some m"
proof -
  from assms(3) obtain mn mcl where m: "doc st m = Some mn" "n_class mn = Some mcl"
    by (auto simp: classes_Some_iff)
  from assms(2) obtain dn dcl where d: "doc st d = Some dn" "n_class dn = Some dcl"
    by (auto simp: classes_Some_iff)
  show ?thesis
    using assms(1) m d
    by (cases "n_parent mn"; cases "m = d")
       (auto simp: cleanup_def marker_destroy_def toggleClass_Some detached_def pointData_def)
qed

lemma restore_highlight_ok:
  assumes "case highlighted st of None \<Rightarrow> True | Some h \<Rightarrow> classes (doc st) h \<noteq> None"
  shows "\<exists>st'. restore_highlight options st = Some st' \<and> chart st' = chart st \<and>
           callbacks st' = callbacks st \<and> marker_element st' = marker_element st \<and>
           pointData st' p = pointData st p"
proof (cases "highlighted st")
  case None
  then show ?thesis by (simp add: restore_highlight_def)
next
  case (Some h)
  with assms obtain hn hcl where h: "doc st h = Some hn" "n_class hn = Some hcl"
    by (auto simp: classes_Some_iff)
  with Some show ?thesis
    by (auto simp: restore_highlight_def toggleClass_Some pointData_def)
qed

lemma restore_highlight_classes:
  assumes "restore_highlight options st = Some st'" and "classes (doc st) e \<noteq> None"
  shows "classes (doc st') e \<noteq> None"
  using assms
  by (auto simp: restore_highlight_def toggleClass_def set_classes_def classes_def
      split: option.splits bind_splits if_splits)

lemma calcDelta_pointData:
  "calcDelta st = Some delta \<Longrightarrow> dragged st = Some d \<Longrightarrow> pointData st d = Some (Some (oldData delta))"
  by (auto simp: calcDelta_def Let_def split: bind_splits)

lemma calcDelta_newData:
  "calcDelta st = Some delta \<Longrightarrow>
   \<exists>c. converter st = Some c \<and>
       newData delta = Chartist_extend (oldData delta) (dp_x (oldData delta) + convertX c (dl_dx delta))
                         (dp_y (oldData delta) + convertY c (dl_dy delta))"
  by (auto simp: calcDelta_def Let_def split: bind_splits)

lemma pointData_set_ok:
  assumes "pointData st d = Some slot"
  shows "\<exists>st'. pointData_set st d v = Some st' \<and> pointData st' d = Some (Some v) \<and> doc st' = doc st \<and>
           ch_updates (chart st') = ch_updates (chart st) \<and> callbacks st' = callbacks st \<and>
           marker_element st' = marker_element st \<and> highlighted st' = highlighted st"
  using assms by (auto simp: pointData_def pointData_set_def split: bind_splits)

lemma pointData_callbacks [simp]: "pointData (st\<lparr>callbacks := l\<rparr>) d = pointData st d"
  by (simp add: pointData_def)

lemma pointData_update_chart [simp]: "pointData (update_chart st) d = pointData st d"
  by (simp add: pointData_def update_chart_def)

lemma commit_veto:
  assumes "changed delta" and "preventDefault options delta d (chart st)"
  shows "commit options d delta st = Some (st\<lparr>callbacks := callbacks st @ [delta]\<rparr>)"
  using assms by (auto simp: commit_def preventDefault_def split: option.splits)

lemma update_chart_fields [simp]:
  "doc (update_chart st) = doc st" "marker_element (update_chart st) = marker_element st"
  "highlighted (update_chart st) = highlighted st"
  "ch_updates (chart (update_chart st)) = Suc (ch_updates (chart st))"
  by (simp_all add: update_chart_def)

lemma commit_go:
  assumes "changed delta" and "\<not> preventDefault options delta d (chart st)"
    and "pointData st d = Some slot"
  shows "\<exists>st'. commit options d delta st = Some st' \<and> pointData st' d = Some (Some (newData delta)) \<and>
           doc st' = doc st \<and> ch_updates (chart st') = Suc (ch_updates (chart st)) \<and>
           marker_element st' = marker_element st \<and> highlighted st' = highlighted st"
proof -
  define st0 where "st0 = (case o_updateCallback options of None \<Rightarrow> st
                           | Some cb \<Rightarrow> st\<lparr>callbacks := callbacks st @ [delta]\<rparr>)"
  have p0: "pointData st0 d = Some slot" "doc st0 = doc st" "chart st0 = chart st"
    "marker_element st0 = marker_element st" "highlighted st0 = highlighted st"
    using assms(3) by (auto simp: st0_def split: option.splits)
  from pointData_set_ok [OF p0(1), of "newData delta"] obtain st1 where
    st1: "pointData_set st0 d (newData delta) = Some st1" "pointData st1 d = Some (Some (newData delta))"
      "doc st1 = doc st0" "ch_updates (chart st1) = ch_updates (chart st0)"
      "marker_element st1 = marker_element st0" "highlighted st1 = highlighted st0"
    by blast
  have "commit options d delta st = Some (update_chart st1)"
    using assms(1,2) st1(1) by (simp add: commit_def st0_def)
  then show ?thesis using st1 p0 by simp
qed

text \<open>A drop inside the rectangle that changes the data\<close>

lemma end_drag_inside:
  assumes s: "session st d m"
    and r: "getDragRect st (ch_container (chart st)) = Some r" "inRect r (clientX info) (clientY info)"
    and c: "calcDelta st = Some delta" "changed delta"
  shows "preventDefault options delta d (chart st) \<Longrightarrow>
           \<exists>st'. end_drag options event info touch st = Some st' \<and> chart st' = chart st \<and>
             pointData st' d = pointData st d \<and> callbacks st' = callbacks st @ [delta] \<and>
             detached st' m \<and> dragged st' = None"
    and "\<not> preventDefault options delta d (chart st) \<Longrightarrow>
           \<exists>st'. end_drag options event info touch st = Some st' \<and>
             pointData st' d = Some (Some (newData delta)) \<and>
             ch_updates (chart st') = Suc (ch_updates (chart st)) \<and>
             detached st' m \<and> dragged st' = None"
proof -
  from s have dr: "dragged st = Some d" and me: "marker_element st = Some m"
    and cd: "classes (doc st) d \<noteq> None" and cm: "classes (doc st) m \<noteq> None"
    and hl: "case highlighted st of None \<Rightarrow> True | Some h \<Rightarrow> classes (doc st) h \<noteq> None"
    by (simp_all add: session_def)
  have unfold: "\<And>st1. commit options d delta st = Some st1 \<Longrightarrow>
      end_drag options event info touch st = do { st2 \<leftarrow> restore_highlight options st1; cleanup options d st2 }"
    using dr r c(1) by (simp add: end_drag_def)
  {
    assume v: "preventDefault options delta d (chart st)"
    let ?st1 = "st\<lparr>callbacks := callbacks st @ [delta]\<rparr>"
    have c1: "commit options d delta st = Some ?st1" using c(2) v by (rule commit_veto)
    have hl1: "case highlighted ?st1 of None \<Rightarrow> True | Some h \<Rightarrow> classes (doc ?st1) h \<noteq> None"
      using hl by (simp split: option.splits)
    from restore_highlight_ok [OF hl1, of options d] obtain st2 where
      st2: "restore_highlight options ?st1 = Some st2" "chart st2 = chart ?st1"
        "callbacks st2 = callbacks ?st1" "marker_element st2 = marker_element ?st1"
        "pointData st2 d = pointData ?st1 d"
      by blast
    have cl2: "classes (doc st2) d \<noteq> None" "classes (doc st2) m \<noteq> None"
      using restore_highlight_classes [OF st2(1)] cd cm by simp_all
    have me2: "marker_element st2 = Some m" using st2(4) me by simp
    from cleanup_ok [OF me2 cl2, of options] obtain st' where
      "cleanup options d st2 = Some st'" "chart st' = chart st2" "callbacks st' = callbacks st2"
      "dragged st' = None" "detached st' m" "pointData st' d = pointData st2 d"
      by blast
    then show "\<exists>st'. end_drag options event info touch st = Some st' \<and> chart st' = chart st \<and>
             pointData st' d = pointData st d \<and> callbacks st' = callbacks st @ [delta] \<and>
             detached st' m \<and> dragged st' = None"
      using unfold [OF c1] st2 by simp
  }
  {
    assume v: "\<not> preventDefault options delta d (chart st)"
    from commit_go [OF c(2) v calcDelta_pointData [OF c(1) dr]] obtain st1 where
      st1: "commit options d delta st = Some st1" "pointData st1 d = Some (Some (newData delta))"
        "doc st1 = doc st" "ch_updates (chart st1) = Suc (ch_updates (chart st))"
        "marker_element st1 = marker_element st" "highlighted st1 = highlighted st"
      by blast
    have hl1: "case highlighted st1 of None \<Rightarrow> True | Some h \<Rightarrow> classes (doc st1) h \<noteq> None"
      using hl st1 by (simp split: option.splits)
    from restore_highlight_ok [OF hl1, of options d] obtain st2 where
      st2: "restore_highlight options st1 = Some st2" "chart st2 = chart st1"
        "marker_element st2 = marker_element st1" "pointData st2 d = pointData st1 d"
      by blast
    have cl2: "classes (doc st2) d \<noteq> None" "classes (doc st2) m \<noteq> None"
      using restore_highlight_classes [OF st2(1)] cd cm st1(3) by simp_all
    have me2: "marker_element st2 = Some m" using st2(3) st1(5) me by simp
    from cleanup_ok [OF me2 cl2, of options] obtain st' where
      "cleanup options d st2 = Some st'" "chart st' = chart st2"
      "dragged st' = None" "detached st' m" "pointData st' d = pointData st2 d"
      by blast
    then show "\<exists>st'. end_drag options event info touch st = Some st' \<and>
             pointData st' d = Some (Some (newData delta)) \<and>
             ch_updates (chart st') = Suc (ch_updates (chart st)) \<and>
             detached st' m \<and> dragged st' = None"
      using unfold [OF st1(1)] st2 st1 by simp
  }
qed


subsection \<open>Sessions: mousedown starts one, mousemove keeps it\<close>

lemma start_drag_session:
  assumes "no_button event" and "doc st (ev_target event) = Some pn" and "n_class pn = Some cl"
    and "n_parent pn = Some par" and "doc st (fresh st) = None"
    and "case highlighted st of None \<Rightarrow> True | Some h \<Rightarrow> classes (doc st) h \<noteq> None"
  shows "\<exists>st'. start_drag options event info touch st = Some st' \<and>
           session st' (ev_target event) (fresh st) \<and> chart st' = chart st \<and>
           callbacks st' = callbacks st"
proof -
  have ne: "fresh st \<noteq> ev_target event" using assms(2,5) by auto
  show ?thesis
    using assms ne
    by (auto simp: start_drag_def marker_create_def marker_setPosition_def toggleClass_Some
          session_def classes_def Let_def split: option.splits)
qed

lemma dispatchEvent_dragging:
  assumes "dragged st = Some d"
  shows "dispatchEvent (highlight options) options event st = st"
    and "dispatchEvent (unhighlight options) options event st = st"
  using assms
  by (auto simp: dispatchEvent_def fire_def highlight_def unhighlight_def
      split: option.splits bind_splits if_splits)

lemma marker_setPosition_result:
  assumes "marker_setPosition x y st = Some st1"
  shows "\<exists>r rn m mn. marker_reference st = Some r \<and> doc st r = Some rn \<and>
           marker_element st = Some m \<and> doc st m = Some mn \<and>
           st1 = st\<lparr>doc := (doc st)(m \<mapsto> mn\<lparr>n_transform :=
                    Some (x - r_left (getBoundingClientRect rn), y - r_top (getBoundingClientRect rn))\<rparr>)\<rparr>"
  using assms by (auto simp: marker_setPosition_def Let_def split: bind_splits)

lemma session_doc_update:
  assumes "session st d m" and "doc st e = Some n" and "n_class n' = n_class n"
  shows "session (st\<lparr>doc := (doc st)(e \<mapsto> n')\<rparr>) d m"
  using assms by (auto simp: session_def classes_def split: option.splits)

lemma track_drag_result:
  assumes "track_drag options event info touch st = Some st'" and "dragged st = Some d"
  shows "\<exists>x y st1. marker_setPosition x y st = Some st1 \<and>
           (st' = st1 \<or> (\<exists>m mn v. doc st1 m = Some mn \<and>
                           st' = st1\<lparr>doc := (doc st1)(m \<mapsto> mn\<lparr>n_ct_value := Some v\<rparr>)\<rparr>))"
proof -
  from assms obtain x y st1 where
    st1: "marker_setPosition x y st = Some st1"
    and rest: "(if o_updateWhileDragging options \<and> \<not> touch then
                 do { delta \<leftarrow> calcDelta st1;
                      element \<leftarrow> marker_element st1;
                      en \<leftarrow> doc st1 element;
                      let st2 = st1\<lparr>doc := (doc st1)(element \<mapsto>
                                      en\<lparr>n_ct_value := Some (dp_x (newData delta), dp_y (newData delta))\<rparr>)\<rparr>;
                      let st3 = dispatchEvent (unhighlight options) options
                                  (synthetic ''mouseout'' event element) st2;
                      Some (dispatchEvent (highlight options) options
                              (synthetic ''mouseover'' event element) st3) }
               else Some st1) = Some st'"
    by (auto simp: track_drag_def split: bind_splits)
  from marker_setPosition_result [OF st1] assms(2) have dr: "dragged st1 = Some d" by auto
  show ?thesis
  proof (cases "o_updateWhileDragging options \<and> \<not> touch")
    case False
    with rest st1 show ?thesis by auto
  next
    case True
    with rest have "\<exists>element en v. doc st1 element = Some en \<and>
        st' = st1\<lparr>doc := (doc st1)(element \<mapsto> en\<lparr>n_ct_value := Some v\<rparr>)\<rparr>"
      using dr by (auto simp: Let_def dispatchEvent_dragging split: bind_splits)
    with st1 show ?thesis by blast
  qed
qed

lemma track_drag_session:
  assumes "session st d m" and "track_drag options event info touch st = Some st'"
  shows "session st' d m \<and> chart st' = chart st \<and> callbacks st' = callbacks st"
proof -
  from assms(1) have dr: "dragged st = Some d" by (simp add: session_def)
  from track_drag_result [OF assms(2) dr] obtain x y st1 where
    st1: "marker_setPosition x y st = Some st1"
      "st' = st1 \<or> (\<exists>m mn v. doc st1 m = Some mn \<and>
                           st' = st1\<lparr>doc := (doc st1)(m \<mapsto> mn\<lparr>n_ct_value := Some v\<rparr>)\<rparr>)"
    by blast
  from marker_setPosition_result [OF st1(1)] assms(1)
  have s1: "session st1 d m" "chart st1 = chart st" "callbacks st1 = callbacks st"
    by (auto intro!: session_doc_update)
  from st1(2) show ?thesis
  proof
    assume "st' = st1"
    with s1 show ?thesis by simp
  next
    assume "\<exists>m mn v. doc st1 m = Some mn \<and>
              st' = st1\<lparr>doc := (doc st1)(m \<mapsto> mn\<lparr>n_ct_value := Some v\<rparr>)\<rparr>"
    then obtain e en v where "doc st1 e = Some en"
      "st' = st1\<lparr>doc := (doc st1)(e \<mapsto> en\<lparr>n_ct_value := Some v\<rparr>)\<rparr>"
      by blast
    with s1 show ?thesis by (auto intro!: session_doc_update)
  qed
qed


subsection \<open>A whole drag, step by step\<close>

text \<open>
  Pointer down on a point at \<open>(x, y)\<close>, one move by \<open>(dx, dy)\<close>, pointer up inside the drop
  rectangle, with no veto: the three handlers return, one re-render is requested, and the
  point's data is the old data with \<open>convertX\<close> of the marker's pixel delta added to \<open>x\<close> and
  \<open>convertY\<close> of the negated pixel delta added to \<open>y\<close>.
\<close>

lemma drag_cycle_result:
  fixes st :: "'a state"
  assumes p: "doc st p = Some pn" "n_class pn = Some cl" "n_parent pn = Some par"
      "n_transform pn = None" "n_indices pn = Some (si, pj)"
    and data: "ch_series (chart st) si = Some ser" "ser pj = Some old"
    and conv: "converter st = Some c"
    and fresh: "doc st (fresh st) = None"
    and grid: "grids st = g # gs" "doc st g = Some gn" "g \<noteq> p"
      "inRect (getBoundingClientRect gn) ux uy"
    and hl: "highlighted st = None \<or> highlighted st = Some p"
    and cb: "case o_updateCallback options of None \<Rightarrow> True
             | Some updateCallback \<Rightarrow> \<forall>delta e ch. updateCallback delta e ch \<noteq> JBool False"
    and mv: "moved options (dx, dy) = (mx, my)" "mx \<noteq> 0 \<or> my \<noteq> 0"
  shows "\<exists>st'.
     do { s1 \<leftarrow> start_drag options (MouseEvent ''mousedown'' \<lparr>p_target = p, clientX = x, clientY = y\<rparr> 0)
                  \<lparr>p_target = p, clientX = x, clientY = y\<rparr> False st;
          s2 \<leftarrow> track_drag options (MouseEvent ''mousemove'' \<lparr>p_target = t2, clientX = x + dx, clientY = y + dy\<rparr> 0)
                  \<lparr>p_target = t2, clientX = x + dx, clientY = y + dy\<rparr> False s1;
          end_drag options (MouseEvent ''mouseup'' \<lparr>p_target = t3, clientX = ux, clientY = uy\<rparr> 0)
                  \<lparr>p_target = t3, clientX = ux, clientY = uy\<rparr> False s2 } = Some st' \<and>
     pointData st' p = Some (Some (old\<lparr>dp_x := dp_x old + convertX c mx,
                                        dp_y := dp_y old + convertY c (- my)\<rparr>)) \<and>
     ch_updates (chart st') = Suc (ch_updates (chart st))"
proof -
  have ne: "fresh st \<noteq> p" "fresh st \<noteq> g" "p \<noteq> fresh st" "g \<noteq> fresh st"
    using p(1) grid(2) fresh by auto
  show ?thesis
    using assms ne
    apply (simp add: start_drag_def marker_create_def marker_setPosition_def toggleClass_Some
        getBoundingClientRect_def translate_def Let_def)
    apply (simp add: track_drag_def marker_setPosition_def getBoundingClientRect_def translate_def
        calcDelta_def pointData_def Let_def dispatchEvent_dragging moved_def split: if_splits)
    apply (auto simp: end_drag_def getDragRect_def getBoundingClientRect_def translate_def
        calcDelta_def pointData_def pointData_set_def commit_def preventDefault_def
        restore_highlight_def cleanup_def marker_destroy_def toggleClass_Some update_chart_def
        Chartist_extend_def Let_def split: option.splits)
    done
qed


text \<open>
  The example under the default options (only the y axis enabled): the pointer moves by
  \<open>(30, -20)\<close>, the marker by \<open>(0, -20)\<close>, and the x value grows by \<open>convertX(0)\<close>.
\<close>

lemma drag_cycle_result_example:
  "\<exists>st'.
     do { s1 \<leftarrow> start_drag (init_options defaultOptions)
                  (MouseEvent ''mousedown'' \<lparr>p_target = 4, clientX = 105, clientY = 125\<rparr> 0)
                  \<lparr>p_target = 4, clientX = 105, clientY = 125\<rparr> False (ex_idle ex_options);
          s2 \<leftarrow> track_drag (init_options defaultOptions)
                  (MouseEvent ''mousemove'' \<lparr>p_target = 3, clientX = 105 + 30, clientY = 125 + (- 20)\<rparr> 0)
                  \<lparr>p_target = 3, clientX = 105 + 30, clientY = 125 + (- 20)\<rparr> False s1;
          end_drag (init_options defaultOptions)
                  (MouseEvent ''mouseup'' \<lparr>p_target = 3, clientX = 135, clientY = 105\<rparr> 0)
                  \<lparr>p_target = 3, clientX = 135, clientY = 105\<rparr> False s2 } = Some st' \<and>
     pointData st' 4 = Some (Some \<lparr>dp_x = 2, dp_y = 27, \<dots> = ''first''\<rparr>) \<and>
     ch_updates (chart st') = 1"
proof -
  let ?st = "ex_idle ex_options"
  let ?pn = "ex_node [''ct-point''] (Some (0, 0)) (Some 3) 100 120 110 130"
  let ?gn = "ex_node [''ct-grids''] None (Some 1) 50 10 350 250"
  let ?ser = "((\<lambda>j. None)(0 \<mapsto> \<lparr>dp_x = 1, dp_y = 15, \<dots> = ''first''\<rparr>,
                            1 \<mapsto> \<lparr>dp_x = 2, dp_y = 12, \<dots> = ''second''\<rparr>)) :: string series"
  let ?old = "\<lparr>dp_x = 1, dp_y = 15, \<dots> = ''first''\<rparr>"
  have "\<exists>st'.
     do { s1 \<leftarrow> start_drag (init_options defaultOptions)
                  (MouseEvent ''mousedown'' \<lparr>p_target = 4, clientX = 105, clientY = 125\<rparr> 0)
                  \<lparr>p_target = 4, clientX = 105, clientY = 125\<rparr> False ?st;
          s2 \<leftarrow> track_drag (init_options defaultOptions)
                  (MouseEvent ''mousemove'' \<lparr>p_target = 3, clientX = 105 + 30, clientY = 125 + (- 20)\<rparr> 0)
                  \<lparr>p_target = 3, clientX = 105 + 30, clientY = 125 + (- 20)\<rparr> False s1;
          end_drag (init_options defaultOptions)
                  (MouseEvent ''mouseup'' \<lparr>p_target = 3, clientX = 135, clientY = 105\<rparr> 0)
                  \<lparr>p_target = 3, clientX = 135, clientY = 105\<rparr> False s2 } = Some st' \<and>
     pointData st' 4 = Some (Some (?old\<lparr>dp_x := dp_x ?old + convertX ex_converter 0,
                                         dp_y := dp_y ?old + convertY ex_converter (- (- 20))\<rparr>)) \<and>
     ch_updates (chart st') = Suc (ch_updates (chart ?st))"
    by (rule drag_cycle_result [where pn = ?pn and cl = "[''ct-point'']" and par = 3 and si = 0 and pj = 0
          and ser = ?ser and g = 2 and gs = "[]" and gn = ?gn and dx = 30 and dy = "- 20"])
       (simp_all add: ex_defs moved_def inRect_def getBoundingClientRect_def init_options_def
          defaultOptions_def)
  then show ?thesis
    by (simp add: convertX_def convertY_def ex_defs)
qed


subsection \<open>The converter\<close>

text \<open>
  What the converter of lines 87-100 computes, on exact rationals, for axes that have a
  range and a pixel length that is not zero: \<open>min + d * (max - min) / axisLength\<close>, the
  value at the pixel distance \<open>d\<close> from the start of the axis.
\<close>

lemma convert_formula:
  assumes "a_range axisX = Some rx" and "a_range axisY = Some ry"
    and "a_axisLength axisX \<noteq> 0" and "a_axisLength axisY \<noteq> 0"
  shows "converted_x axisX axisY d = Some (rg_min rx + d * (rg_max rx - rg_min rx) / a_axisLength axisX) \<and>
         converted_y axisX axisY d = Some (rg_min ry + d * (rg_max ry - rg_min ry) / a_axisLength axisY)"
  using assms
  by (simp add: converted_x_def converted_y_def createConverter_def convertX_def convertY_def)

text \<open>
  \<open>calcDelta\<close> is the only caller, and it passes pixel deltas: a pixel delta of zero on an
  axis still moves the value on that axis, by the minimum of the axis.
\<close>

lemma calcDelta_zero_delta:
  assumes "calcDelta st = Some delta"
  shows "(dl_dx delta = 0 \<longrightarrow> dp_x (newData delta) = dp_x (oldData delta) + minX (dl_converter delta)) \<and>
         (dl_dy delta = 0 \<longrightarrow> dp_y (newData delta) = dp_y (oldData delta) + minY (dl_converter delta))"
  using assms
  by (auto simp: calcDelta_def Let_def Chartist_extend_def convertX_def convertY_def split: bind_splits)

text \<open>
  Claim C1 has \<open>convertX\<close> and \<open>convertY\<close> linear with no offset on deltas: \<open>convert(0) = 0\<close>,
  \<open>convert(k * d) = k * convert(d)\<close> and \<open>convert(d) = d * (max - min) / axisLength\<close>.
  Evaluated on the example axes (x from 1 to 5 over 400 pixels, y from 10 to 20 over 100
  pixels, both lengths not zero): \<open>convertX(0)\<close> is 1 and \<open>convertY(0)\<close> is 10, the minimum
  of the axis; \<open>convertX(2 * 100)\<close> is 3 while \<open>2 * convertX(100)\<close> is 4; and \<open>convertX(100)\<close>
  is 2, not \<open>100 * (5 - 1) / 400 = 1\<close>. The functions of lines 97-98 add \<open>minX\<close> and \<open>minY\<close>
  to the deltas they are given.
\<close>

theorem convert_adds_axis_minimum:
  "a_axisLength ex_axisX \<noteq> 0 \<and> a_axisLength ex_axisY \<noteq> 0 \<and>
   converted_x ex_axisX ex_axisY 0 = Some 1 \<and> converted_y ex_axisX ex_axisY 0 = Some 10 \<and>
   converted_x ex_axisX ex_axisY (2 * 100) = Some 3 \<and> converted_x ex_axisX ex_axisY 100 = Some 2"
  by (simp add: converted_x_def converted_y_def createConverter_def convertX_def convertY_def
      ex_axisX_def ex_axisY_def)

subsection \<open>The marker\<close>

text \<open>
  Claim C7: for every active marker, \<open>destroy\<close> returns, a second \<open>destroy\<close> right after it
  returns too and changes nothing, and after \<open>destroy\<close> the marker element has no parent;
  no other node and no chart data is touched.
\<close>

theorem marker_destroy_idempotent:
  assumes "marker_element st = Some m" and "doc st m = Some mn"
  shows "\<exists>st1. marker_destroy st = Some st1 \<and> marker_destroy st1 = Some st1 \<and>
           detached st1 m \<and> (\<forall>e. e \<noteq> m \<longrightarrow> doc st1 e = doc st e) \<and> chart st1 = chart st"
  using assms by (cases "n_parent mn") (simp_all add: marker_destroy_def detached_def)

theorem marker_destroy_idempotent_witness:
  "\<exists>st1. marker_destroy (ex_dragging ex_options (30, - 20) (23 / 10, 27)) = Some st1 \<and>
         marker_destroy st1 = Some st1 \<and> detached st1 6 \<and>
         \<not> detached (ex_dragging ex_options (30, - 20) (23 / 10, 27)) 6"
proof -
  have "marker_element (ex_dragging ex_options (30, - 20) (23 / 10, 27)) = Some 6"
    by (simp add: ex_dragging_def)
  moreover have "\<exists>mn. doc (ex_dragging ex_options (30, - 20) (23 / 10, 27)) 6 = Some mn"
    by (simp add: ex_dragging_def)
  moreover have "\<not> detached (ex_dragging ex_options (30, - 20) (23 / 10, 27)) 6"
    by (simp add: detached_def ex_dragging_def ex_node_def)
  ultimately show ?thesis
    using marker_destroy_idempotent [of "ex_dragging ex_options (30, - 20) (23 / 10, 27)" 6]
    by blast
qed

subsection \<open>Draw notifications\<close>

text \<open>
  Claim C9, as stated, has the converter recomputed at every draw notification whose axis
  objects are not those of the current converter. The handler looks at notifications of
  type \<open>point\<close> only (line 178): the notification for the line of the series, under two new
  axis objects, leaves the converter of the example as it is.
\<close>

theorem on_draw_line_counterexample:
  "\<not> same_axes ex_line_draw (converter (ex_idle ex_options)) \<and>
   on_draw ex_options ex_line_draw (ex_idle ex_options) = Some (ex_idle ex_options) \<and>
   converter (ex_idle ex_options) \<noteq> createConverter (d_axisX ex_line_draw) (d_axisY ex_line_draw)"
  by (simp add: on_draw_def same_axes_def createConverter_def ex_line_draw_def ex_defs)

text \<open>
  Claim C9, amended: at a draw notification of type \<open>point\<close> the converter is left as it is
  when both axis objects are those of the current converter, and is otherwise the
  converter created from the notification's axes (the handler throws when that creation
  does); a draw notification of any other type changes nothing.
\<close>

theorem on_draw_converter:
  assumes "doc st (d_element data) = Some n"
  shows "(d_type data = ''point'' \<and> same_axes data (converter st) \<longrightarrow>
            map_option converter (on_draw options data st) = Some (converter st)) \<and>
         (d_type data = ''point'' \<and> \<not> same_axes data (converter st) \<longrightarrow>
            map_option converter (on_draw options data st) =
              map_option Some (createConverter (d_axisX data) (d_axisY data))) \<and>
         (d_type data \<noteq> ''point'' \<longrightarrow> on_draw options data st = Some st)"
  using assms by (cases "createConverter (d_axisX data) (d_axisY data)") (simp_all add: on_draw_def)

theorem on_draw_converter_witness:
  "map_option converter (on_draw ex_options (ex_draw 4 0) (ex_idle ex_options)) = Some (Some ex_converter) \<and>
   map_option converter (on_draw ex_options (ex_draw 4 0) ex_start) = Some (Some ex_converter) \<and>
   map_option converter (on_draw ex_options (ex_line_draw\<lparr>d_type := ''point''\<rparr>) (ex_idle ex_options))
     = Some (Some \<lparr>c_axisX = d_axisX ex_line_draw, c_axisY = d_axisY ex_line_draw,
                   minX = 0, minY = 0, ratioX = 1 / 50, ratioY = 1 / 2\<rparr>) \<and>
   on_draw ex_options ex_line_draw (ex_idle ex_options) = Some (ex_idle ex_options)"
  using on_draw_converter [of "ex_idle ex_options" "ex_draw 4 0" _ ex_options]
    on_draw_converter [of ex_start "ex_draw 4 0" _ ex_options]
    on_draw_converter [of "ex_idle ex_options" "ex_line_draw\<lparr>d_type := ''point''\<rparr>" _ ex_options]
    on_draw_converter [of "ex_idle ex_options" ex_line_draw _ ex_options]
  by (simp add: same_axes_def createConverter_def ex_line_draw_def ex_defs)

subsection \<open>Charts that are no line charts\<close>

text \<open>
  Claim C10: for a chart that is no line chart \<open>drag\<close> returns the state it was given: no
  listener, no draw handler, no converter, no tag, no change of the data. With no listener
  and no draw handler registered before, no sequence of pointer events and draw
  notifications changes anything.
\<close>

theorem drag_not_line_noop:
  assumes "ch_kind (chart st) \<noteq> Line"
  shows "drag options st = st \<and>
         (listeners st = [] \<and> \<not> ch_draw_handler (chart st) \<longrightarrow>
            run options inputs (drag options st) = Some st)"
proof -
  have d: "drag options st = st" using assms by (simp add: drag_def)
  have "listeners st = [] \<Longrightarrow> \<not> ch_draw_handler (chart st) \<Longrightarrow> run options inputs st = Some st"
  proof (induction inputs)
    case Nil
    then show ?case by simp
  next
    case (Cons i inputs)
    then have "step options i st = Some st"
      by (cases i) (simp_all add: dispatch_def emit_draw_def)
    with Cons show ?case by simp
  qed
  with d show ?thesis by simp
qed

theorem drag_not_line_noop_witness:
  "drag ex_options (ex_start\<lparr>chart := (chart ex_start)\<lparr>ch_kind := Bar\<rparr>\<rparr>)
     = ex_start\<lparr>chart := (chart ex_start)\<lparr>ch_kind := Bar\<rparr>\<rparr> \<and>
   run ex_options [Draw (ex_draw 4 0), Pointer True (ex_mouse ''mousedown'' 4 105 125),
                   Pointer True (ex_mouse ''mousemove'' 3 135 105),
                   Pointer True (ex_mouse ''mouseup'' 3 135 105)]
       (drag ex_options (ex_start\<lparr>chart := (chart ex_start)\<lparr>ch_kind := Bar\<rparr>\<rparr>))
     = Some (ex_start\<lparr>chart := (chart ex_start)\<lparr>ch_kind := Bar\<rparr>\<rparr>) \<and>
   listeners (drag ex_options ex_start) \<noteq> []"
  using drag_not_line_noop [of "ex_start\<lparr>chart := (chart ex_start)\<lparr>ch_kind := Bar\<rparr>\<rparr>" ex_options
      "[Draw (ex_draw 4 0), Pointer True (ex_mouse ''mousedown'' 4 105 125),
        Pointer True (ex_mouse ''mousemove'' 3 135 105),
        Pointer True (ex_mouse ''mouseup'' 3 135 105)]"]
  by (simp add: ex_start_def drag_def on_def Let_def)


subsection \<open>The end of a drag\<close>

text \<open>
  On a chart with a grid element: for every drag session that ends with the pointer
  outside the rectangle of the grid, the mouseup handler returns; the data point of the
  dragged element and the whole chart (its data and its count of re-render requests) are
  as before, the update callback was not called, the marker element is detached and no
  element is dragged any more.
\<close>

lemma drop_outside_discards:
  assumes "session st d m"
    and "getDragRect st (ch_container (chart st)) = Some r"
    and "\<not> inRect r (clientX info) (clientY info)"
  shows "\<exists>st'. end_drag options event info touch st = Some st' \<and>
           pointData st' d = pointData st d \<and> chart st' = chart st \<and>
           callbacks st' = callbacks st \<and> detached st' m \<and> dragged st' = None"
proof -
  from assms(1) have s: "dragged st = Some d" "marker_element st = Some m"
    "classes (doc st) d \<noteq> None" "classes (doc st) m \<noteq> None"
    by (simp_all add: session_def)
  from cleanup_ok [OF s(2) s(3) s(4), of options]
  obtain st' where "cleanup options d st = Some st'" "chart st' = chart st"
    "callbacks st' = callbacks st" "dragged st' = None" "detached st' m"
    "pointData st' d = pointData st d"
    by blast
  then show ?thesis using assms(2,3) s(1) by (simp add: end_drag_def)
qed

lemma drop_outside_discards_example:
  "\<exists>st'. end_drag (ex_options\<lparr>o_updateCallback := Some ex_falsy\<rparr>) (ex_mouse ''mouseup'' 1 380 280)
            \<lparr>p_target = 1, clientX = 380, clientY = 280\<rparr> False
            (ex_dragging ex_options (30, - 20) (23 / 10, 27)) = Some st' \<and>
         pointData st' 4 = Some (Some \<lparr>dp_x = 1, dp_y = 15, \<dots> = ''first''\<rparr>) \<and>
         ch_updates (chart st') = 0 \<and> callbacks st' = [] \<and> detached st' 6 \<and> dragged st' = None"
proof -
  let ?st = "ex_dragging ex_options (30, - 20) (23 / 10, 27)"
  let ?info = "\<lparr>p_target = 1, clientX = 380, clientY = 280\<rparr>"
  have s: "session ?st 4 6" by (rule ex_dragging_session)
  have r: "getDragRect ?st (ch_container (chart ?st))
           = Some \<lparr>r_left = 50, r_top = 10, r_right = 350, r_bottom = 250\<rparr>"
    by (rule ex_dragging_rect)
  have i: "\<not> inRect \<lparr>r_left = 50, r_top = 10, r_right = 350, r_bottom = 250\<rparr>
             (clientX ?info) (clientY ?info)"
    by (simp add: inRect_def)
  have before: "pointData ?st 4 = Some (Some \<lparr>dp_x = 1, dp_y = 15, \<dots> = ''first''\<rparr>)"
    "ch_updates (chart ?st) = 0" "callbacks ?st = []"
    by (simp_all add: pointData_def ex_defs)
  from drop_outside_discards [OF s r i, of "ex_options\<lparr>o_updateCallback := Some ex_falsy\<rparr>"
      "ex_mouse ''mouseup'' 1 380 280" False] before
  show ?thesis by auto
qed

text \<open>
  Claim C5: for every drag session that ends inside the drop rectangle with a pixel delta
  that is not zero, under a configured update callback: when the callback returns exactly
  \<open>false\<close>, the handler returns with the chart (data and re-render count) unchanged, the
  marker element detached and no element dragged; when it returns anything else, the new
  data is stored at the point and one re-render is requested, with the same clean-up.
\<close>

theorem callback_veto:
  assumes "session st d m"
    and "getDragRect st (ch_container (chart st)) = Some r"
    and "inRect r (clientX info) (clientY info)"
    and "calcDelta st = Some delta" and "changed delta"
    and "o_updateCallback options = Some updateCallback"
  shows "(updateCallback delta d (chart st) = JBool False \<longrightarrow>
           (\<exists>st'. end_drag options event info touch st = Some st' \<and>
              pointData st' d = pointData st d \<and> chart st' = chart st \<and>
              callbacks st' = callbacks st @ [delta] \<and> detached st' m \<and> dragged st' = None)) \<and>
         (updateCallback delta d (chart st) \<noteq> JBool False \<longrightarrow>
           (\<exists>st'. end_drag options event info touch st = Some st' \<and>
              pointData st' d = Some (Some (newData delta)) \<and>
              ch_updates (chart st') = Suc (ch_updates (chart st)) \<and>
              detached st' m \<and> dragged st' = None))"
proof -
  have p: "preventDefault options delta d (chart st) \<longleftrightarrow> updateCallback delta d (chart st) = JBool False"
    using assms(6) by (simp add: preventDefault_def)
  from end_drag_inside [OF assms(1-5), of options event touch] p
  show ?thesis by blast
qed

theorem callback_veto_witness:
  "(\<exists>st'. end_drag (ex_options\<lparr>o_updateCallback := Some ex_veto\<rparr>) (ex_mouse ''mouseup'' 3 135 105)
             \<lparr>p_target = 3, clientX = 135, clientY = 105\<rparr> False
             (ex_dragging ex_options (30, - 20) (23 / 10, 27)) = Some st' \<and>
          pointData st' 4 = Some (Some \<lparr>dp_x = 1, dp_y = 15, \<dots> = ''first''\<rparr>) \<and>
          ch_updates (chart st') = 0 \<and> callbacks st' = [ex_delta] \<and>
          detached st' 6 \<and> dragged st' = None) \<and>
   (\<exists>st'. end_drag (ex_options\<lparr>o_updateCallback := Some ex_falsy\<rparr>) (ex_mouse ''mouseup'' 3 135 105)
             \<lparr>p_target = 3, clientX = 135, clientY = 105\<rparr> False
             (ex_dragging ex_options (30, - 20) (23 / 10, 27)) = Some st' \<and>
          pointData st' 4 = Some (Some \<lparr>dp_x = 23 / 10, dp_y = 27, \<dots> = ''first''\<rparr>) \<and>
          ch_updates (chart st') = 1 \<and> detached st' 6 \<and> dragged st' = None)"
proof -
  let ?st = "ex_dragging ex_options (30, - 20) (23 / 10, 27)"
  let ?info = "\<lparr>p_target = 3, clientX = 135, clientY = 105\<rparr>"
  have s: "session ?st 4 6" by (rule ex_dragging_session)
  have r: "getDragRect ?st (ch_container (chart ?st))
           = Some \<lparr>r_left = 50, r_top = 10, r_right = 350, r_bottom = 250\<rparr>"
    by (rule ex_dragging_rect)
  have i: "inRect \<lparr>r_left = 50, r_top = 10, r_right = 350, r_bottom = 250\<rparr>
             (clientX ?info) (clientY ?info)"
    by (simp add: inRect_def)
  have c: "calcDelta ?st = Some ex_delta" by (rule ex_dragging_delta)
  have ch: "changed ex_delta" by (simp add: ex_delta_def)
  have v: "o_updateCallback (ex_options\<lparr>o_updateCallback := Some ex_veto\<rparr>) = Some ex_veto"
    and f: "o_updateCallback (ex_options\<lparr>o_updateCallback := Some ex_falsy\<rparr>) = Some ex_falsy"
    by simp_all
  have before: "pointData ?st 4 = Some (Some \<lparr>dp_x = 1, dp_y = 15, \<dots> = ''first''\<rparr>)"
    "ch_updates (chart ?st) = 0" "callbacks ?st = []"
    "newData ex_delta = \<lparr>dp_x = 23 / 10, dp_y = 27, \<dots> = ''first''\<rparr>"
    by (simp_all add: pointData_def ex_delta_def ex_defs)
  from callback_veto [OF s r i c ch v, of "ex_mouse ''mouseup'' 3 135 105" False] before
  have 1: "\<exists>st'. end_drag (ex_options\<lparr>o_updateCallback := Some ex_veto\<rparr>) (ex_mouse ''mouseup'' 3 135 105)
             ?info False ?st = Some st' \<and>
          pointData st' 4 = Some (Some \<lparr>dp_x = 1, dp_y = 15, \<dots> = ''first''\<rparr>) \<and>
          ch_updates (chart st') = 0 \<and> callbacks st' = [ex_delta] \<and>
          detached st' 6 \<and> dragged st' = None"
    by (auto simp: ex_veto_def)
  from callback_veto [OF s r i c ch f, of "ex_mouse ''mouseup'' 3 135 105" False] before
  have 2: "\<exists>st'. end_drag (ex_options\<lparr>o_updateCallback := Some ex_falsy\<rparr>) (ex_mouse ''mouseup'' 3 135 105)
             ?info False ?st = Some st' \<and>
          pointData st' 4 = Some (Some \<lparr>dp_x = 23 / 10, dp_y = 27, \<dots> = ''first''\<rparr>) \<and>
          ch_updates (chart st') = 1 \<and> detached st' 6 \<and> dragged st' = None"
    by (auto simp: ex_falsy_def)
  from 1 2 show ?thesis by blast
qed

text \<open>
  Claim C8: for every committed drag (a session ending inside the drop rectangle, with a
  pixel delta that is not zero and no veto) the data point stored for the dragged element
  is the old data point with \<open>x\<close> and \<open>y\<close> replaced by the computed values; every other
  field is the old one.
\<close>

theorem commit_keeps_other_fields:
  assumes "session st d m"
    and "getDragRect st (ch_container (chart st)) = Some r"
    and "inRect r (clientX info) (clientY info)"
    and "calcDelta st = Some delta" and "changed delta"
    and "\<not> preventDefault options delta d (chart st)"
  shows "\<exists>st' old new c.
           pointData st d = Some (Some old) \<and> converter st = Some c \<and>
           end_drag options event info touch st = Some st' \<and>
           pointData st' d = Some (Some new) \<and>
           new = old\<lparr>dp_x := dp_x old + convertX c (dl_dx delta),
                     dp_y := dp_y old + convertY c (dl_dy delta)\<rparr> \<and>
           datapoint.more new = datapoint.more old"
proof -
  from assms(1) have dr: "dragged st = Some d" by (simp add: session_def)
  from calcDelta_newData [OF assms(4)] obtain c where
    c: "converter st = Some c"
      "newData delta = Chartist_extend (oldData delta) (dp_x (oldData delta) + convertX c (dl_dx delta))
                         (dp_y (oldData delta) + convertY c (dl_dy delta))"
    by blast
  from end_drag_inside(2) [OF assms(1-5) assms(6), of event touch] obtain st' where
    "end_drag options event info touch st = Some st'" "pointData st' d = Some (Some (newData delta))"
    by blast
  with c calcDelta_pointData [OF assms(4) dr] show ?thesis
    by (simp add: Chartist_extend_def)
qed

theorem commit_keeps_other_fields_witness:
  "\<exists>st'. pointData (ex_dragging ex_options (30, - 20) (23 / 10, 27)) 4
           = Some (Some \<lparr>dp_x = 1, dp_y = 15, \<dots> = ''first''\<rparr>) \<and>
         end_drag ex_options (ex_mouse ''mouseup'' 3 135 105)
           \<lparr>p_target = 3, clientX = 135, clientY = 105\<rparr> False
           (ex_dragging ex_options (30, - 20) (23 / 10, 27)) = Some st' \<and>
         pointData st' 4 = Some (Some \<lparr>dp_x = 23 / 10, dp_y = 27, \<dots> = ''first''\<rparr>)"
proof -
  let ?st = "ex_dragging ex_options (30, - 20) (23 / 10, 27)"
  let ?info = "\<lparr>p_target = 3, clientX = 135, clientY = 105\<rparr>"
  have s: "session ?st 4 6" by (rule ex_dragging_session)
  have r: "getDragRect ?st (ch_container (chart ?st))
           = Some \<lparr>r_left = 50, r_top = 10, r_right = 350, r_bottom = 250\<rparr>"
    by (rule ex_dragging_rect)
  have i: "inRect \<lparr>r_left = 50, r_top = 10, r_right = 350, r_bottom = 250\<rparr>
             (clientX ?info) (clientY ?info)"
    by (simp add: inRect_def)
  have c: "calcDelta ?st = Some ex_delta" by (rule ex_dragging_delta)
  have ch: "changed ex_delta" by (simp add: ex_delta_def)
  have p: "\<not> preventDefault ex_options ex_delta 4 (chart ?st)"
    by (simp add: preventDefault_def ex_options_def init_options_def defaultOptions_def)
  have before: "pointData ?st 4 = Some (Some \<lparr>dp_x = 1, dp_y = 15, \<dots> = ''first''\<rparr>)"
    "converter ?st = Some ex_converter" "dl_dx ex_delta = 30" "dl_dy ex_delta = 20"
    "convertX ex_converter 30 = 13 / 10" "convertY ex_converter 20 = 12"
    by (simp_all add: pointData_def convertX_def convertY_def ex_delta_def ex_defs)
  from commit_keeps_other_fields [OF s r i c ch p, of "ex_mouse ''mouseup'' 3 135 105" False] before
  show ?thesis by auto
qed


subsection \<open>Where the code departs from the specification\<close>

text \<open>
  Claim C2 has the committed value \<open>(x0 + convertX(dx), y0 - convertY(dy))\<close>, for the
  conversion without offset of the specification \<open>(x0 + dx * ratioX, y0 - dy * ratioY)\<close>.
  Evaluated on the example (the first point, with data \<open>(1, 15)\<close>, dragged by 30 pixels to
  the right and 20 pixels up, both axes enabled, no callback): one re-render is requested
  and the committed value is \<open>(23/10, 27)\<close>. \<open>calcDelta\<close> converts the pixel delta with the
  converter for positions, which adds the axis minimum (1 on x, 10 on y), so the value is
  \<open>(1 + (1 + 30/100), 15 + (10 + 20/10))\<close>. The value of the claim is \<open>(13/10, 17)\<close> without
  offset, and \<open>(1 + 13/10, 15 - 8) = (23/10, 7)\<close> with the \<open>convertX\<close> and \<open>convertY\<close> of the
  code.
\<close>

theorem drag_cycle_adds_axis_minimum:
  "map_option (\<lambda>s. (pointData s 4, ch_updates (chart s)))
     (run ex_options ([Draw (ex_draw 4 0), Draw (ex_draw 5 1)] @ ex_cycle) (drag ex_options ex_start))
   = Some (Some (Some \<lparr>dp_x = 23 / 10, dp_y = 27, \<dots> = ''first''\<rparr>), 1) \<and>
   converted_x ex_axisX ex_axisY 30 = Some (13 / 10) \<and>
   converted_y ex_axisX ex_axisY (- 20) = Some 8"
  by code_simp

text \<open>
  Claim C3 has a pointer-down during a drag session ignored. Evaluated on the example:
  a finger on the first point starts a session (dragged element 4, marker 6); a second
  finger on the second point starts another one over it (dragged element 5, marker 7, a
  new grab offset), and the first marker stays in the tree; when the second finger is
  lifted, marker 7 is removed, marker 6 is still attached and the first point still
  carries the class of a drag source. The handler of lines 212-226 does not look at
  \<open>dragged\<close>, as those of lines 190-203 and 229-270 do.
\<close>

theorem second_pointer_down_restarts:
  "map_option (\<lambda>s. (dragged s, marker_element s, offset s))
     (run ex_options (take 1 ex_two_fingers) (ex_idle ex_options))
   = Some (Some 4, Some 6, Some (- 5, - 5)) \<and>
   map_option (\<lambda>s. (dragged s, marker_element s, offset s, detached s 6))
     (run ex_options (take 2 ex_two_fingers) (ex_idle ex_options))
   = Some (Some 5, Some 7, Some (- 7, - 8), False) \<and>
   map_option (\<lambda>s. (dragged s, detached s 7, detached s 6, classes (doc s) 4))
     (run ex_options ex_two_fingers (ex_idle ex_options))
   = Some (None, True, False, Some [''ct-point'', ''chartist-drag'', ''chartist-drag-source''])"
  by code_simp

text \<open>
  Claim C6 has, with the x axis disabled, the marker's x position and the committed x value
  untouched by the pointer's horizontal movement. Evaluated on the example under the
  default options (\<open>axis = 'y'\<close>), the pointer moving 30 pixels to the right and 20 up: the
  marker's translation is \<open>(0, -20)\<close>, so its x position stays, but the committed x value is
  2, not the original 1: \<open>calcDelta\<close> adds \<open>convertX(0)\<close>, the minimum of the x axis.
\<close>

theorem disabled_axis_shifts_x:
  "o_axisX ex_options_y = False \<and> o_axisY ex_options_y = True \<and>
   map_option (\<lambda>s. map_option n_transform (doc s 6))
     (run ex_options_y (take 2 ex_cycle) (ex_idle ex_options_y))
   = Some (Some (Some (0, - 20))) \<and>
   pointData (ex_idle ex_options_y) 4 = Some (Some \<lparr>dp_x = 1, dp_y = 15, \<dots> = ''first''\<rparr>) \<and>
   map_option (\<lambda>s. pointData s 4) (run ex_options_y ex_cycle (ex_idle ex_options_y))
   = Some (Some (Some \<lparr>dp_x = 2, dp_y = 27, \<dots> = ''first''\<rparr>))"
  by code_simp

text \<open>
  Claim C4 has every drag session that ends outside the valid drop rectangle discarded and
  cleaned up: data unchanged, no callback, no re-render, the marker destroyed, the session
  idle. The valid drop rectangle is the box of the grid, or of the container when there is
  no grid. Evaluated on the example chart without a \<^verbatim>\<open>ct-grids\<close> element, the first point
  dragged and released at \<open>(500, 400)\<close>, outside the container: before the release element 4
  is dragged and marker 6 is attached; \<open>getDragRect\<close> throws, so the mouseup handler does
  not return, at line 233, before the clean-up of lines 247-249, which leaves the marker
  in the tree and \<open>dragged\<close> set. In line 138 \<open>(grid || container)\<close> is meant to fall back on
  the container, but an empty collection is truthy. On the chart with its grid element the
  same release does what the claim says (lemma \<open>drop_outside_discards\<close>).
\<close>

theorem no_grid_drop_throws:
  "grids ex_no_grid = [] \<and>
   \<not> inRect (getBoundingClientRect (ex_node [''ct-chart''] None None 0 0 400 300)) 500 400 \<and>
   map_option (\<lambda>s. (dragged s, marker_element s, detached s 6, getDragRect s (ch_container (chart s))))
     (run ex_options (take 2 ex_drop_outside) ex_no_grid)
   = Some (Some 4, Some 6, False, None) \<and>
   map_option (\<lambda>s. dragged s) (run ex_options ex_drop_outside ex_no_grid) = None \<and>
   map_option (\<lambda>s. (dragged s, detached s 6, pointData s 4, ch_updates (chart s), callbacks s))
     (run ex_options ex_drop_outside (ex_idle ex_options))
   = Some (None, True, Some (Some \<lparr>dp_x = 1, dp_y = 15, \<dots> = ''first''\<rparr>), 0, [])"
  by code_simp

end
